theory Spec2Isabelle
  imports Complex_Main "HOL-Library.AList" "HOL-Library.Multiset"
begin

section \<open>Configuration values\<close>

text \<open>
  The configuration objects of \<^verbatim>\<open>src/config\<close> are bags of arbitrary JavaScript values
  (\<^verbatim>\<open>FlexibleConfig: { [key: string]: any }\<close>).  A value is one of the shapes that
  \<^verbatim>\<open>JSON.parse\<close> or a literal of \<^verbatim>\<open>defaults.ts\<close> can produce, plus \<^verbatim>\<open>undefined\<close>.
  Numbers carry the exact rational value of their numeral; rounding to IEEE doubles is
  not part of the model.  Strings are lists of 8-bit characters.

  An object is modelled by its own properties, in insertion order: an association list
  with distinct keys, written with \<^const>\<open>AList.update\<close> (an assignment to an existing key
  keeps its position, a new key goes to the end) and read with \<^const>\<open>map_of\<close>.  The
  prototype chain is not modelled: no key is one of the names to which
  \<^verbatim>\<open>Object.prototype\<close> gives a meaning, such as \<^verbatim>\<open>__proto__\<close> or \<^verbatim>\<open>hasOwnProperty\<close>.
\<close>

datatype jval =
    JUndefined
  | JNull
  | JBool bool
  | JNum rat
  | JStr string
  | JArr "jval list"
  | JObj "(string \<times> jval) list"

type_synonym FlexibleConfig = "(string \<times> jval) list"

text \<open>\<^verbatim>\<open>obj[key]\<close>: the value of an own property, \<^verbatim>\<open>undefined\<close> when there is none.\<close>

definition getProp :: "FlexibleConfig \<Rightarrow> string \<Rightarrow> jval" where
  "getProp obj key = (case map_of obj key of Some v \<Rightarrow> v | None \<Rightarrow> JUndefined)"


text \<open>
  \<^verbatim>\<open>a === b\<close>.  Primitives compare by value.  Arrays and objects compare by identity in
  JavaScript; the two operands here are always built at different places (a condition
  literal and a resolved configuration), so they are never the same object.
\<close>

fun strict_eq :: "jval \<Rightarrow> jval \<Rightarrow> bool" where
  "strict_eq JUndefined JUndefined = True"
| "strict_eq JNull JNull = True"
| "strict_eq (JBool a) (JBool b) = (a = b)"
| "strict_eq (JNum a) (JNum b) = (a = b)"
| "strict_eq (JStr a) (JStr b) = (a = b)"
| "strict_eq _ _ = False"

text \<open>\<^verbatim>\<open>Array.prototype.join\<close> on an array of strings.\<close>

fun join :: "string \<Rightarrow> string list \<Rightarrow> string" where
  "join sep [] = []"
| "join sep [x] = x"
| "join sep (x # y # ys) = x @ sep @ join sep (y # ys)"


section \<open>The platform's \<^verbatim>\<open>JSON.parse\<close>\<close>


























section \<open>Key normalizer and value coercion (the resolver module of \<^verbatim>\<open>src/config\<close>)\<close>










text \<open>\<^verbatim>\<open>value.split(',')\<close> and \<^verbatim>\<open>s.trim()\<close>.\<close>

fun split :: "char \<Rightarrow> string \<Rightarrow> string list" where
  "split sep [] = [[]]"
| "split sep (c # cs) =
     (if c = sep then [] # split sep cs
      else (case split sep cs of w # ws \<Rightarrow> (c # w) # ws | [] \<Rightarrow> [[c]]))"




section \<open>Priority configuration resolver (\<^verbatim>\<open>src/config\<close>)\<close>




















section \<open>Tool types (\<^verbatim>\<open>src/tools/types.ts\<close>)\<close>

text \<open>
  \<^verbatim>\<open>ResolvedConfig\<close> as the tool filter receives it: the field \<^verbatim>\<open>availableTools: string[]\<close>
  that the type promises, and every other key of the bag.
\<close>

record ResolvedConfig =
  availableTools :: "string list"
  entries :: FlexibleConfig

text \<open>\<^verbatim>\<open>(config as any)[field]\<close>.\<close>

definition config_get :: "ResolvedConfig \<Rightarrow> string \<Rightarrow> jval" where
  "config_get config field =
     (if field = ''availableTools'' then JArr (map JStr (availableTools config))
      else getProp (entries config) field)"

text \<open>
  \<^verbatim>\<open>MCPToolMetadata\<close>; every field is optional.  The \<^verbatim>\<open>schema\<close> and \<^verbatim>\<open>handler\<close> of an
  \<^verbatim>\<open>MCPTool\<close> are never inspected by the registry or the filter and are left out.
\<close>

record MCPToolMetadata =
  category :: "string option"
  tags :: "string list option"
  version :: "string option"
  author :: "string option"
  requiresAuth :: "bool option"
  cacheable :: "bool option"
  estimatedDuration :: "rat option"

record MCPTool =
  name :: string
  description :: string
  metadata :: "MCPToolMetadata option"

text \<open>
  \<^verbatim>\<open>ToolCondition.value\<close> is \<^verbatim>\<open>any | ((value: any) => boolean)\<close>: a plain value (an absent
  one is \<^verbatim>\<open>undefined\<close>) or a predicate.  Predicates and validators are pure total
  functions here.
\<close>

datatype cond_value = Plain jval | Predicate "jval \<Rightarrow> bool"

record ToolCondition =
  ctype :: string
  field :: "string option"
  cvalue :: cond_value
  validator :: "(ResolvedConfig \<Rightarrow> bool) option"

record ToolRegistration =
  tool :: MCPTool
  enabledByDefault :: bool
  conditions :: "ToolCondition list"

text \<open>The second parameter of \<^verbatim>\<open>registerTool\<close>: \<^verbatim>\<open>Omit<ToolRegistration, 'tool'>\<close>,
  both fields optional.\<close>

record RegisterOptions =
  opt_enabledByDefault :: "bool option"
  opt_conditions :: "ToolCondition list option"

text \<open>
  \<^verbatim>\<open>ToolRegistry\<close>: two JavaScript \<^verbatim>\<open>Map\<close>s.  \<^verbatim>\<open>tools\<close> is iterated, so it keeps its
  insertion order; \<^verbatim>\<open>filteredCache\<close> is only read by key, written and cleared.
\<close>

record ToolRegistry =
  tools :: "(string \<times> ToolRegistration) list"
  filteredCache :: "string \<rightharpoonup> MCPTool list"

text \<open>
  \<^verbatim>\<open>ToolFilterOptions\<close>, \<^verbatim>\<open>ToolFilterResult\<close> and its parts.  The option \<^verbatim>\<open>include\<close> is
  written \<open>include_opt\<close>, \<^verbatim>\<open>include\<close> being a keyword here.  A field name belongs to one
  record only, so the result's \<^verbatim>\<open>tools\<close> is \<open>result_tools\<close>, an exclusion entry's
  \<^verbatim>\<open>tool\<close> is \<open>tool_name\<close> and the summary's \<^verbatim>\<open>excluded\<close> is \<open>excluded_count\<close>.
\<close>

record ToolFilterOptions =
  include_opt :: "string list option"
  exclude :: "string list option"
  categories :: "string list option"
  requiredTags :: "string list option"
  includeAuthRequired :: "bool option"
  config :: "ResolvedConfig option"

record Exclusion =
  tool_name :: string
  reason :: string

record Summary =
  total :: int
  included :: int
  excluded_count :: int

record ToolFilterResult =
  result_tools :: "MCPTool list"
  excluded :: "Exclusion list"
  summary :: Summary


section \<open>Tool registry and filter (\<^verbatim>\<open>src/tools/registry.ts\<close>)\<close>

text \<open>The module-level \<^verbatim>\<open>toolRegistry\<close> at start-up, and after \<^verbatim>\<open>clearRegistry()\<close>.\<close>

definition emptyRegistry :: ToolRegistry where
  "emptyRegistry = \<lparr>tools = [], filteredCache = Map.empty\<rparr>"

text \<open>The default \<^verbatim>\<open>options = {}\<close> of \<^verbatim>\<open>registerTool\<close> and of \<^verbatim>\<open>filterTools\<close>.\<close>

definition noRegisterOptions :: RegisterOptions where
  "noRegisterOptions = \<lparr>opt_enabledByDefault = None, opt_conditions = None\<rparr>"

definition noFilterOptions :: ToolFilterOptions where
  "noFilterOptions =
     \<lparr>include_opt = None, exclude = None, categories = None, requiredTags = None,
      includeAuthRequired = None, config = None\<rparr>"

definition registerTool :: "MCPTool \<Rightarrow> RegisterOptions \<Rightarrow> ToolRegistry \<Rightarrow> ToolRegistry" where
  "registerTool t options reg =
     (let registration =
            \<lparr>tool = t,
             enabledByDefault = (case opt_enabledByDefault options of Some b \<Rightarrow> b | None \<Rightarrow> True),
             conditions = (case opt_conditions options of Some cs \<Rightarrow> cs | None \<Rightarrow> [])\<rparr>
      in \<lparr>tools = AList.update (name t) registration (tools reg),
          filteredCache = Map.empty\<rparr>)"

definition registerTools :: "MCPTool list \<Rightarrow> ToolRegistry \<Rightarrow> ToolRegistry" where
  "registerTools ts reg = fold (\<lambda>t. registerTool t noRegisterOptions) ts reg"

definition getAllTools :: "ToolRegistry \<Rightarrow> MCPTool list" where
  "getAllTools reg = map (\<lambda>r. tool r) (map snd (tools reg))"

definition getTool :: "ToolRegistry \<Rightarrow> string \<Rightarrow> MCPTool option" where
  "getTool reg n = map_option tool (map_of (tools reg) n)"

definition isToolRegistered :: "ToolRegistry \<Rightarrow> string \<Rightarrow> bool" where
  "isToolRegistered reg n = (map_of (tools reg) n \<noteq> None)"

definition clearRegistry :: "ToolRegistry \<Rightarrow> ToolRegistry" where
  "clearRegistry reg = \<lparr>tools = [], filteredCache = Map.empty\<rparr>"

text \<open>
  \<^verbatim>\<open>evaluateCondition\<close>.  \<^verbatim>\<open>!condition.field\<close> holds for a missing field and for the empty
  string.  The \<^verbatim>\<open>default\<close> branch is reached by any type string other than the three
  the union names.
\<close>

definition evaluateCondition :: "ToolCondition \<Rightarrow> ResolvedConfig \<Rightarrow> bool" where
  "evaluateCondition condition cfg =
     (if ctype condition = ''config'' then
        (case field condition of
           None \<Rightarrow> False
         | Some f \<Rightarrow>
             if f = [] then False
             else (let configValue = config_get cfg f
                   in case cvalue condition of
                        Predicate p \<Rightarrow> p configValue
                      | Plain v \<Rightarrow> strict_eq configValue v))
      else if ctype condition = ''environment'' then True
      else if ctype condition = ''custom'' then
        (case validator condition of Some check \<Rightarrow> check cfg | None \<Rightarrow> True)
      else False)"

text \<open>\<^verbatim>\<open>shouldIncludeTool\<close> returns \<^verbatim>\<open>true | string\<close>.\<close>

datatype include_result = IsTrue | Reason string

text \<open>The loop over \<^verbatim>\<open>registration.conditions\<close>: the first condition that is not met
  decides.\<close>

fun checkConditions :: "ToolCondition list \<Rightarrow> ResolvedConfig \<Rightarrow> include_result" where
  "checkConditions [] cfg = IsTrue"
| "checkConditions (condition # rest) cfg =
     (if \<not> evaluateCondition condition cfg
      then Reason (''Condition not met: '' @ ctype condition)
      else checkConditions rest cfg)"

definition shouldIncludeTool ::
  "MCPTool \<Rightarrow> ToolRegistration \<Rightarrow> ResolvedConfig \<Rightarrow> ToolFilterOptions \<Rightarrow> include_result" where
  "shouldIncludeTool t registration cfg options =
     (if \<not> enabledByDefault registration then Reason ''Tool is disabled by default''
      else if (case include_opt options of Some inc \<Rightarrow> name t \<notin> set inc | None \<Rightarrow> False)
        then Reason ''Not in include list''
      else if (case exclude options of Some exc \<Rightarrow> name t \<in> set exc | None \<Rightarrow> False)
        then Reason ''In exclude list''
      else if (case categories options of
                 Some cats \<Rightarrow>
                   (case Option.bind (metadata t) category of
                      None \<Rightarrow> True
                    | Some toolCategory \<Rightarrow> toolCategory = [] \<or> toolCategory \<notin> set cats)
               | None \<Rightarrow> False)
        then Reason ''Category not in allowed list''
      else if (case requiredTags options of
                 Some req \<Rightarrow>
                   req \<noteq> [] \<and>
                   (let toolTags = (case Option.bind (metadata t) tags of Some ts \<Rightarrow> ts | None \<Rightarrow> [])
                    in \<not> list_all (\<lambda>tag. tag \<in> set toolTags) req)
               | None \<Rightarrow> False)
        then Reason ''Missing required tags''
      else if Option.bind (metadata t) requiresAuth = Some True
              \<and> includeAuthRequired options = Some False
        then Reason ''Tool requires authentication but auth tools are excluded''
      else checkConditions (conditions registration) cfg)"

text \<open>\<^verbatim>\<open>createFilterCacheKey\<close>.  \<^verbatim>\<open>xs?.join(',') || ''\<close> is the empty string both for a
  missing list and for a list that joins to the empty string.\<close>

definition joinOrEmpty :: "string list option \<Rightarrow> string" where
  "joinOrEmpty xs = (case xs of Some ys \<Rightarrow> join '','' ys | None \<Rightarrow> [])"

definition createFilterCacheKey :: "ResolvedConfig \<Rightarrow> ToolFilterOptions \<Rightarrow> string" where
  "createFilterCacheKey cfg options =
     join ''|''
       [join '','' (availableTools cfg),
        joinOrEmpty (include_opt options),
        joinOrEmpty (exclude options),
        joinOrEmpty (categories options),
        joinOrEmpty (requiredTags options),
        (case includeAuthRequired options of
           Some True \<Rightarrow> ''true'' | Some False \<Rightarrow> ''false'' | None \<Rightarrow> ''undefined'')]"

text \<open>\<^verbatim>\<open>createFilterResult\<close>; JavaScript's subtraction does not truncate, so the counts
  are integers.\<close>

definition createFilterResult :: "MCPTool list \<Rightarrow> ToolRegistry \<Rightarrow> ToolFilterResult" where
  "createFilterResult ts registry =
     (let total' = int (length (tools registry));
          included' = int (length ts);
          excluded' = total' - included'
      in \<lparr>result_tools = ts, excluded = [],
          summary = \<lparr>total = total', included = included', excluded_count = excluded'\<rparr>\<rparr>)"

text \<open>The first loop of \<^verbatim>\<open>filterTools\<close>: every registration is pushed either on
  \<^verbatim>\<open>includedTools\<close> or on \<^verbatim>\<open>excluded\<close>.\<close>

fun eligibilityPass ::
  "ToolRegistration list \<Rightarrow> ResolvedConfig \<Rightarrow> ToolFilterOptions \<Rightarrow>
   MCPTool list \<times> Exclusion list \<Rightarrow> MCPTool list \<times> Exclusion list" where
  "eligibilityPass [] cfg options acc = acc"
| "eligibilityPass (registration # rest) cfg options (includedTools, excl) =
     (let t = tool registration
      in case shouldIncludeTool t registration cfg options of
           IsTrue \<Rightarrow> eligibilityPass rest cfg options (includedTools @ [t], excl)
         | Reason r \<Rightarrow>
             eligibilityPass rest cfg options
               (includedTools, excl @ [\<lparr>tool_name = name t, reason = r\<rparr>]))"

text \<open>The \<^verbatim>\<open>includedTools.forEach\<close> of the allowlist step.\<close>

fun notRequested :: "MCPTool list \<Rightarrow> string list \<Rightarrow> Exclusion list \<Rightarrow> Exclusion list" where
  "notRequested [] requestedTools excl = excl"
| "notRequested (t # rest) requestedTools excl =
     (if name t \<notin> set requestedTools
      then notRequested rest requestedTools
             (excl @ [\<lparr>tool_name = name t, reason = ''Not in requested tools list''\<rparr>])
      else notRequested rest requestedTools excl)"

text \<open>\<^verbatim>\<open>filterTools\<close>, with the registry passed in and returned.  A cached array is truthy
  even when empty, so the cache answers whenever the key is present.\<close>

definition filterTools ::
  "ResolvedConfig \<Rightarrow> ToolFilterOptions \<Rightarrow> ToolRegistry \<Rightarrow> ToolFilterResult \<times> ToolRegistry" where
  "filterTools cfg options reg =
     (let cacheKey = createFilterCacheKey cfg options
      in case filteredCache reg cacheKey of
           Some cached \<Rightarrow> (createFilterResult cached reg, reg)
         | None \<Rightarrow>
             (let allRegistrations = map snd (tools reg);
                  (includedTools, excluded0) = eligibilityPass allRegistrations cfg options ([], []);
                  narrow = (availableTools cfg \<noteq> []);
                  finalTools =
                    (if narrow
                     then filter (\<lambda>t. name t \<in> set (availableTools cfg)) includedTools
                     else includedTools);
                  excluded1 =
                    (if narrow then notRequested includedTools (availableTools cfg) excluded0
                     else excluded0)
              in (\<lparr>result_tools = finalTools, excluded = excluded1,
                   summary = \<lparr>total = int (length allRegistrations),
                              included = int (length finalTools),
                              excluded_count = int (length excluded1)\<rparr>\<rparr>,
                  reg\<lparr>filteredCache := (filteredCache reg)(cacheKey \<mapsto> finalTools)\<rparr>)))"


section \<open>Notions of the specification\<close>

text \<open>
  The registry-eligible tools of a configuration and filter options: the tools of the
  registrations that \<^const>\<open>shouldIncludeTool\<close> accepts, in registry order; and the
  exclusion entries of the registrations it rejects.
\<close>

definition registryEligible :: "ToolRegistry \<Rightarrow> ResolvedConfig \<Rightarrow> ToolFilterOptions \<Rightarrow> MCPTool list" where
  "registryEligible reg cfg options =
     map tool (filter (\<lambda>r. shouldIncludeTool (tool r) r cfg options = IsTrue) (map snd (tools reg)))"

definition exclusionOf :: "ResolvedConfig \<Rightarrow> ToolFilterOptions \<Rightarrow> ToolRegistration \<Rightarrow> Exclusion option" where
  "exclusionOf cfg options r =
     (case shouldIncludeTool (tool r) r cfg options of
        IsTrue \<Rightarrow> None
      | Reason s \<Rightarrow> Some \<lparr>tool_name = name (tool r), reason = s\<rparr>)"

definition genericExclusions :: "ToolRegistry \<Rightarrow> ResolvedConfig \<Rightarrow> ToolFilterOptions \<Rightarrow> Exclusion list" where
  "genericExclusions reg cfg options = List.map_filter (exclusionOf cfg options) (map snd (tools reg))"

definition allowlistExclusion :: "MCPTool \<Rightarrow> Exclusion" where
  "allowlistExclusion t = \<lparr>tool_name = name t, reason = ''Not in requested tools list''\<rparr>"

text \<open>
  What a JavaScript \<^verbatim>\<open>Map\<close> written only by \<^verbatim>\<open>registerTool\<close> guarantees: one entry per
  key, and every registration stored under the name of its tool.
\<close>

definition registry_inv :: "ToolRegistry \<Rightarrow> bool" where
  "registry_inv reg \<longleftrightarrow>
     distinct (map fst (tools reg)) \<and> (\<forall>(k, r) \<in> set (tools reg). name (tool r) = k)"

text \<open>A sequence of filter calls, each with its configuration and options, run on the
  registry one after the other.\<close>

definition filterCalls :: "(ResolvedConfig \<times> ToolFilterOptions) list \<Rightarrow> ToolRegistry \<Rightarrow> ToolRegistry" where
  "filterCalls calls reg = fold (\<lambda>call r. snd (filterTools (fst call) (snd call) r)) calls reg"







section \<open>Example data\<close>

definition plainTool :: "string \<Rightarrow> string \<Rightarrow> MCPTool" where
  "plainTool n d = \<lparr>name = n, description = d, metadata = None\<rparr>"

definition toolA :: MCPTool where "toolA = plainTool ''a'' ''tool a''"

definition toolB :: MCPTool where "toolB = plainTool ''b'' ''tool b''"

definition toolX1 :: MCPTool where "toolX1 = plainTool ''x'' ''first description''"

definition toolX2 :: MCPTool where "toolX2 = plainTool ''x'' ''second description''"

definition registryAB :: ToolRegistry where
  "registryAB = registerTools [toolA, toolB] emptyRegistry"

definition cfgOnlyA :: ResolvedConfig where
  "cfgOnlyA = \<lparr>availableTools = [''a''], entries = []\<rparr>"

definition cfgNoList :: ResolvedConfig where
  "cfgNoList = \<lparr>availableTools = [], entries = []\<rparr>"


definition debugCondition :: ToolCondition where
  "debugCondition =
     \<lparr>ctype = ''config'', field = Some ''debug'', cvalue = Plain (JBool True), validator = None\<rparr>"

definition registryDebug :: ToolRegistry where
  "registryDebug =
     registerTool toolA \<lparr>opt_enabledByDefault = None, opt_conditions = Some [debugCondition]\<rparr> emptyRegistry"

definition cfgDebugOn :: ResolvedConfig where
  "cfgDebugOn = \<lparr>availableTools = [], entries = [(''debug'', JBool True)]\<rparr>"

definition cfgDebugOff :: ResolvedConfig where
  "cfgDebugOff = \<lparr>availableTools = [], entries = [(''debug'', JBool False)]\<rparr>"

definition bareCustomCondition :: ToolCondition where
  "bareCustomCondition =
     \<lparr>ctype = ''custom'', field = None, cvalue = Plain JUndefined, validator = None\<rparr>"

definition bareConfigCondition :: ToolCondition where
  "bareConfigCondition =
     \<lparr>ctype = ''config'', field = None, cvalue = Plain JUndefined, validator = None\<rparr>"












section \<open>Evaluation rules\<close>




lemmas demo_defs =
  plainTool_def toolA_def toolB_def toolX1_def toolX2_def registryAB_def cfgOnlyA_def cfgNoList_def
  debugCondition_def registryDebug_def cfgDebugOn_def cfgDebugOff_def bareCustomCondition_def
  bareConfigCondition_def registerTools_def registerTool_def emptyRegistry_def noRegisterOptions_def
  noFilterOptions_def

lemmas filter_defs =
  registryEligible_def genericExclusions_def exclusionOf_def allowlistExclusion_def
  shouldIncludeTool_def evaluateCondition_def config_get_def getProp_def
  createFilterCacheKey_def joinOrEmpty_def createFilterResult_def List.map_filter_simps


section \<open>The merge loop of the resolver\<close>












section \<open>The key normalizer never produces \<^verbatim>\<open>to-use\<close>\<close>








section \<open>Numerals under \<^verbatim>\<open>JSON.parse\<close>\<close>











section \<open>The two passes of the filter\<close>

lemma eligibilityPass_eq:
  "eligibilityPass regs cfg options (inc, exc) =
     (inc @ map tool (filter (\<lambda>r. shouldIncludeTool (tool r) r cfg options = IsTrue) regs),
      exc @ List.map_filter (exclusionOf cfg options) regs)"
proof (induction regs arbitrary: inc exc)
  case Nil
  show ?case by (simp add: List.map_filter_simps)
next
  case (Cons r regs)
  show ?case
    by (cases "shouldIncludeTool (tool r) r cfg options")
       (simp_all add: Cons.IH exclusionOf_def List.map_filter_simps)
qed

lemma notRequested_eq:
  "notRequested ts req exc = exc @ map allowlistExclusion (filter (\<lambda>t. name t \<notin> set req) ts)"
  by (induction ts arbitrary: exc) (simp_all add: allowlistExclusion_def)

lemma filterTools_miss:
  assumes "filteredCache reg (createFilterCacheKey cfg options) = None"
  shows "filterTools cfg options reg =
     (let elig = registryEligible reg cfg options;
          final = (if availableTools cfg \<noteq> []
                   then filter (\<lambda>t. name t \<in> set (availableTools cfg)) elig else elig);
          excl = genericExclusions reg cfg options @
                 (if availableTools cfg \<noteq> []
                  then map allowlistExclusion (filter (\<lambda>t. name t \<notin> set (availableTools cfg)) elig)
                  else [])
      in (\<lparr>result_tools = final, excluded = excl,
           summary = \<lparr>total = int (length (tools reg)), included = int (length final),
                      excluded_count = int (length excl)\<rparr>\<rparr>,
          reg\<lparr>filteredCache := (filteredCache reg)(createFilterCacheKey cfg options \<mapsto> final)\<rparr>))"
  using assms
  by (simp add: filterTools_def Let_def eligibilityPass_eq notRequested_eq registryEligible_def
        genericExclusions_def)

lemma filterTools_hit:
  assumes "filteredCache reg (createFilterCacheKey cfg options) = Some cached"
  shows "filterTools cfg options reg = (createFilterResult cached reg, reg)"
  using assms by (simp add: filterTools_def Let_def)

lemma tools_filterTools: "tools (snd (filterTools cfg options reg)) = tools reg"
  by (simp add: filterTools_def Let_def split: option.splits prod.splits)

lemma cache_kept:
  assumes "filteredCache reg k = Some cached"
  shows "filteredCache (snd (filterTools cfg options reg)) k = Some cached"
proof (cases "filteredCache reg (createFilterCacheKey cfg options)")
  case None
  with assms have "createFilterCacheKey cfg options \<noteq> k"
    by auto
  with assms show ?thesis
    by (simp add: filterTools_miss [OF None] Let_def)
next
  case (Some other)
  with assms show ?thesis
    by (simp add: filterTools_hit)
qed

lemma tools_filterCalls: "tools (filterCalls calls reg) = tools reg"
  unfolding filterCalls_def
  by (induction calls arbitrary: reg) (simp_all add: tools_filterTools)

lemma cache_kept_filterCalls:
  "filteredCache reg k = Some cached \<Longrightarrow> filteredCache (filterCalls calls reg) k = Some cached"
  unfolding filterCalls_def
  by (induction calls arbitrary: reg) (simp_all add: cache_kept)

lemma length_partition:
  "length (filter (\<lambda>r. shouldIncludeTool (tool r) r cfg options = IsTrue) regs)
   + length (List.map_filter (exclusionOf cfg options) regs) = length regs"
  by (induction regs)
     (auto simp: List.map_filter_simps exclusionOf_def split: include_result.splits)

lemma length_genericExclusions:
  "int (length (genericExclusions reg cfg options))
   = int (length (tools reg)) - int (length (registryEligible reg cfg options))"
  using length_partition [of cfg options "map snd (tools reg)"]
  by (simp add: registryEligible_def genericExclusions_def)

lemma length_filter_split:
  "int (length (filter (\<lambda>t. \<not> P t) ts)) = int (length ts) - int (length (filter P ts))"
  using sum_length_filter_compl [of P ts] by linarith

lemma mset_eligibility:
  "mset (map name (map tool (filter (\<lambda>r. shouldIncludeTool (tool r) r cfg options = IsTrue) regs)))
   + mset (map tool_name (List.map_filter (exclusionOf cfg options) regs))
   = mset (map (\<lambda>r. name (tool r)) regs)"
  by (induction regs)
     (auto simp: List.map_filter_simps exclusionOf_def split: include_result.splits)

lemma mset_generic:
  "mset (map name (registryEligible reg cfg options))
   + mset (map tool_name (genericExclusions reg cfg options))
   = mset (map (\<lambda>r. name (tool r)) (map snd (tools reg)))"
  using mset_eligibility [of cfg options "map snd (tools reg)"]
  by (simp only: registryEligible_def genericExclusions_def)

lemma mset_allowlist:
  "mset (map name (filter (\<lambda>t. name t \<in> req) ts))
   + mset (map tool_name (map allowlistExclusion (filter (\<lambda>t. name t \<notin> req) ts)))
   = mset (map name ts)"
  by (induction ts) (auto simp: allowlistExclusion_def)


section \<open>The registry invariant\<close>

lemma registry_inv_names:
  "registry_inv reg \<Longrightarrow> map (\<lambda>r. name (tool r)) (map snd (tools reg)) = map fst (tools reg)"
  by (auto simp: registry_inv_def)


lemma update_entries_inv:
  "(\<forall>(k', r) \<in> set al. f r = k') \<Longrightarrow> f v = k \<Longrightarrow> (\<forall>(k', r) \<in> set (AList.update k v al). f r = k')"
  by (induction al) auto

lemma registry_inv_empty: "registry_inv emptyRegistry"
  by (simp add: registry_inv_def emptyRegistry_def)

lemma registry_inv_registerTool:
  assumes "registry_inv reg"
  shows "registry_inv (registerTool t options reg)"
proof -
  let ?r = "\<lparr>tool = t,
             enabledByDefault = (case opt_enabledByDefault options of Some b \<Rightarrow> b | None \<Rightarrow> True),
             conditions = (case opt_conditions options of Some cs \<Rightarrow> cs | None \<Rightarrow> [])\<rparr>"
  have d: "distinct (map fst (AList.update (name t) ?r (tools reg)))"
    using assms by (simp add: registry_inv_def distinct_update)
  have "\<forall>(k', r) \<in> set (tools reg). name (tool r) = k'"
    using assms by (simp add: registry_inv_def)
  moreover have "name (tool ?r) = name t"
    by simp
  ultimately have "\<forall>(k', r) \<in> set (AList.update (name t) ?r (tools reg)). name (tool r) = k'"
    by (rule update_entries_inv)
  with d show ?thesis
    by (simp add: registry_inv_def registerTool_def Let_def)
qed

lemma registry_inv_registerTools: "registry_inv reg \<Longrightarrow> registry_inv (registerTools ts reg)"
  unfolding registerTools_def
  by (induction ts arbitrary: reg) (simp_all add: registry_inv_registerTool)

lemma registry_inv_clearRegistry: "registry_inv (clearRegistry reg)"
  by (simp add: registry_inv_def clearRegistry_def)

lemma registry_inv_filterTools: "registry_inv reg \<Longrightarrow> registry_inv (snd (filterTools cfg options reg))"
  by (simp add: registry_inv_def tools_filterTools)



text \<open>The example registries.\<close>

lemma registryAB_facts:
  "tools registryAB
     = [(''a'', \<lparr>tool = toolA, enabledByDefault = True, conditions = []\<rparr>),
        (''b'', \<lparr>tool = toolB, enabledByDefault = True, conditions = []\<rparr>)]"
  "filteredCache registryAB key = None"
  "registry_inv registryAB"
  by (simp_all add: demo_defs registry_inv_def)

lemma registryAB_eligible:
  "registryEligible registryAB cfgOnlyA noFilterOptions = [toolA, toolB]"
  "genericExclusions registryAB cfgOnlyA noFilterOptions = []"
  "registryEligible registryAB cfgNoList noFilterOptions = [toolA, toolB]"
  "genericExclusions registryAB cfgNoList noFilterOptions = []"
  by (simp_all add: demo_defs filter_defs)


section \<open>Properties of the resolver\<close>







section \<open>Properties of the tool filter\<close>

text \<open>
  Claim C3, allowlist narrowing, with the reason as the code spells it and with the
  cache taken into account.  On a call that computes (the cache has no entry for the
  key) with a non-empty \<^verbatim>\<open>availableTools\<close>, the returned tools are the registry-eligible
  tools whose name is in the list, and the exclusion list is the generic exclusions
  followed by one entry, with the reason \<^verbatim>\<open>Not in requested tools list\<close>, for every
  eligible tool whose name is not in the list.  A call answered from the cache returns
  an empty exclusion list.
\<close>

theorem allowlist_narrowing:
  "(filteredCache reg (createFilterCacheKey cfg options) = None \<and> availableTools cfg \<noteq> [] \<longrightarrow>
      result_tools (fst (filterTools cfg options reg))
        = filter (\<lambda>t. name t \<in> set (availableTools cfg)) (registryEligible reg cfg options)
      \<and> excluded (fst (filterTools cfg options reg))
        = genericExclusions reg cfg options
          @ map (\<lambda>t. \<lparr>tool_name = name t, reason = ''Not in requested tools list''\<rparr>)
              (filter (\<lambda>t. name t \<notin> set (availableTools cfg)) (registryEligible reg cfg options)))
   \<and> (filteredCache reg (createFilterCacheKey cfg options) = Some cached \<longrightarrow>
      excluded (fst (filterTools cfg options reg)) = [])"
proof (intro conjI impI)
  let ?eligible = "registryEligible reg cfg options"
  let ?requested = "set (availableTools cfg)"
  assume a: "filteredCache reg (createFilterCacheKey cfg options) = None \<and> availableTools cfg \<noteq> []"
  then have computed: "fst (filterTools cfg options reg) =
      \<lparr>result_tools = filter (\<lambda>t. name t \<in> ?requested) ?eligible,
       excluded = genericExclusions reg cfg options
                  @ map allowlistExclusion (filter (\<lambda>t. name t \<notin> ?requested) ?eligible),
       summary = summary (fst (filterTools cfg options reg))\<rparr>"
    by (simp add: filterTools_miss Let_def)
  have entry: "allowlistExclusion = (\<lambda>t. \<lparr>tool_name = name t, reason = ''Not in requested tools list''\<rparr>)"
    by (rule ext) (simp add: allowlistExclusion_def)
  show "result_tools (fst (filterTools cfg options reg)) = filter (\<lambda>t. name t \<in> ?requested) ?eligible"
    by (subst computed) simp
  show "excluded (fst (filterTools cfg options reg))
      = genericExclusions reg cfg options
        @ map (\<lambda>t. \<lparr>tool_name = name t, reason = ''Not in requested tools list''\<rparr>)
            (filter (\<lambda>t. name t \<notin> ?requested) ?eligible)"
    by (subst computed) (simp add: entry)
next
  assume "filteredCache reg (createFilterCacheKey cfg options) = Some cached"
  then show "excluded (fst (filterTools cfg options reg)) = []"
    by (simp add: filterTools_hit createFilterResult_def Let_def)
qed

text \<open>Two enabled tools \<open>a\<close> and \<open>b\<close>, and \<^verbatim>\<open>availableTools == ["a"]\<close>: the first call
  computes, the second is answered from the cache.\<close>

theorem allowlist_narrowing_witness:
  "filteredCache registryAB (createFilterCacheKey cfgOnlyA noFilterOptions) = None
   \<and> availableTools cfgOnlyA \<noteq> []
   \<and> registryEligible registryAB cfgOnlyA noFilterOptions = [toolA, toolB]
   \<and> result_tools (fst (filterTools cfgOnlyA noFilterOptions registryAB)) = [toolA]
   \<and> excluded (fst (filterTools cfgOnlyA noFilterOptions registryAB))
       = [\<lparr>tool_name = ''b'', reason = ''Not in requested tools list''\<rparr>]
   \<and> filteredCache (snd (filterTools cfgOnlyA noFilterOptions registryAB))
        (createFilterCacheKey cfgOnlyA noFilterOptions) = Some [toolA]
   \<and> excluded (fst (filterTools cfgOnlyA noFilterOptions
                      (snd (filterTools cfgOnlyA noFilterOptions registryAB)))) = []"
proof -
  have miss: "filteredCache registryAB (createFilterCacheKey cfgOnlyA noFilterOptions) = None"
    by (rule registryAB_facts)
  have ne: "availableTools cfgOnlyA \<noteq> []"
    by (simp add: cfgOnlyA_def)
  have cached: "filteredCache (snd (filterTools cfgOnlyA noFilterOptions registryAB))
        (createFilterCacheKey cfgOnlyA noFilterOptions) = Some [toolA]"
    by (simp add: filterTools_miss [OF miss] Let_def registryAB_eligible) (simp add: demo_defs)
  show ?thesis
    using allowlist_narrowing [of registryAB cfgOnlyA noFilterOptions]
      allowlist_narrowing [of "snd (filterTools cfgOnlyA noFilterOptions registryAB)" cfgOnlyA
        noFilterOptions "[toolA]"]
      miss ne cached registryAB_eligible
    by (simp add: demo_defs)
qed

text \<open>
  In that example the exclusion entry of \<open>b\<close> does not carry the reason in lower case,
  and the same call repeated is answered from the cache with no exclusion entry at all.
\<close>

theorem allowlist_reason_counterexample:
  "\<lparr>tool_name = ''b'', reason = ''not in requested tools list''\<rparr>
     \<notin> set (excluded (fst (filterTools cfgOnlyA noFilterOptions registryAB)))
   \<and> excluded (fst (filterTools cfgOnlyA noFilterOptions
                      (snd (filterTools cfgOnlyA noFilterOptions registryAB)))) = []"
proof -
  have miss: "filteredCache registryAB (createFilterCacheKey cfgOnlyA noFilterOptions) = None"
    by (rule registryAB_facts)
  have first: "excluded (fst (filterTools cfgOnlyA noFilterOptions registryAB))
      = [\<lparr>tool_name = ''b'', reason = ''Not in requested tools list''\<rparr>]"
    by (simp add: filterTools_miss [OF miss] Let_def registryAB_eligible allowlistExclusion_def)
       (simp add: demo_defs)
  have cached: "filteredCache (snd (filterTools cfgOnlyA noFilterOptions registryAB))
        (createFilterCacheKey cfgOnlyA noFilterOptions) = Some [toolA]"
    by (simp add: filterTools_miss [OF miss] Let_def registryAB_eligible) (simp add: demo_defs)
  show ?thesis
    by (simp add: first filterTools_hit [OF cached] createFilterResult_def Let_def)
qed

text \<open>
  Claim C4, empty-list non-restriction, with the cache taken into account.  On a call
  that computes (the cache has no entry for the key) with an empty \<^verbatim>\<open>availableTools\<close>,
  the returned tools are exactly the registry-eligible tools and the exclusion list is
  exactly the generic exclusions: the allowlist step adds nothing.  A call answered from
  the cache returns the cached list.
\<close>

theorem empty_list_no_narrowing:
  "(filteredCache reg (createFilterCacheKey cfg options) = None \<and> availableTools cfg = [] \<longrightarrow>
      result_tools (fst (filterTools cfg options reg)) = registryEligible reg cfg options
      \<and> excluded (fst (filterTools cfg options reg)) = genericExclusions reg cfg options)
   \<and> (filteredCache reg (createFilterCacheKey cfg options) = Some cached \<longrightarrow>
      result_tools (fst (filterTools cfg options reg)) = cached)"
proof (intro conjI impI)
  assume a: "filteredCache reg (createFilterCacheKey cfg options) = None \<and> availableTools cfg = []"
  then have computed: "fst (filterTools cfg options reg) =
      \<lparr>result_tools = registryEligible reg cfg options,
       excluded = genericExclusions reg cfg options,
       summary = summary (fst (filterTools cfg options reg))\<rparr>"
    by (simp add: filterTools_miss Let_def)
  show "result_tools (fst (filterTools cfg options reg)) = registryEligible reg cfg options"
    by (subst computed) simp
  show "excluded (fst (filterTools cfg options reg)) = genericExclusions reg cfg options"
    by (subst computed) simp
next
  assume "filteredCache reg (createFilterCacheKey cfg options) = Some cached"
  then show "result_tools (fst (filterTools cfg options reg)) = cached"
    by (simp add: filterTools_hit createFilterResult_def Let_def)
qed

theorem empty_list_no_narrowing_witness:
  "filteredCache registryAB (createFilterCacheKey cfgNoList noFilterOptions) = None
   \<and> availableTools cfgNoList = []
   \<and> result_tools (fst (filterTools cfgNoList noFilterOptions registryAB)) = [toolA, toolB]
   \<and> excluded (fst (filterTools cfgNoList noFilterOptions registryAB)) = []
   \<and> filteredCache (snd (filterTools cfgNoList noFilterOptions registryAB))
        (createFilterCacheKey cfgNoList noFilterOptions) = Some [toolA, toolB]
   \<and> result_tools (fst (filterTools cfgNoList noFilterOptions
                          (snd (filterTools cfgNoList noFilterOptions registryAB)))) = [toolA, toolB]"
proof -
  have miss: "filteredCache registryAB (createFilterCacheKey cfgNoList noFilterOptions) = None"
    by (rule registryAB_facts)
  have e: "availableTools cfgNoList = []"
    by (simp add: cfgNoList_def)
  have cached: "filteredCache (snd (filterTools cfgNoList noFilterOptions registryAB))
        (createFilterCacheKey cfgNoList noFilterOptions) = Some [toolA, toolB]"
    by (simp add: filterTools_miss [OF miss] Let_def registryAB_eligible e)
  show ?thesis
    using empty_list_no_narrowing [of registryAB cfgNoList noFilterOptions]
      empty_list_no_narrowing [of "snd (filterTools cfgNoList noFilterOptions registryAB)" cfgNoList
        noFilterOptions "[toolA, toolB]"]
      miss e cached registryAB_eligible
    by simp
qed

text \<open>
  On a call answered from the cache the returned tools need not be the eligible ones.
  The cache key is built from \<^verbatim>\<open>availableTools\<close> and the options only.  Tool \<open>a\<close> is
  registered with the condition \<^verbatim>\<open>debug === true\<close>; a first call with \<^verbatim>\<open>debug: true\<close>
  caches it; a second call with \<^verbatim>\<open>debug: false\<close> and the same empty list has no eligible
  tool and still returns \<open>a\<close>.
\<close>

theorem stale_cache_counterexample:
  "availableTools cfgDebugOff = []
   \<and> registryEligible (snd (filterTools cfgDebugOn noFilterOptions registryDebug))
        cfgDebugOff noFilterOptions = []
   \<and> result_tools (fst (filterTools cfgDebugOff noFilterOptions
                          (snd (filterTools cfgDebugOn noFilterOptions registryDebug)))) = [toolA]"
proof -
  have miss: "filteredCache registryDebug (createFilterCacheKey cfgDebugOn noFilterOptions) = None"
    by (simp add: demo_defs)
  have elig: "registryEligible registryDebug cfgDebugOn noFilterOptions = [toolA]"
    by (simp add: demo_defs filter_defs)
  have key: "createFilterCacheKey cfgDebugOff noFilterOptions = createFilterCacheKey cfgDebugOn noFilterOptions"
    by (simp add: demo_defs filter_defs)
  have cached: "filteredCache (snd (filterTools cfgDebugOn noFilterOptions registryDebug))
        (createFilterCacheKey cfgDebugOff noFilterOptions) = Some [toolA]"
    unfolding key by (simp add: filterTools_miss [OF miss] Let_def elig) (simp add: demo_defs)
  have stale: "registryEligible (snd (filterTools cfgDebugOn noFilterOptions registryDebug))
        cfgDebugOff noFilterOptions = []"
    by (simp add: registryEligible_def tools_filterTools) (simp add: demo_defs filter_defs)
  show ?thesis
    by (simp add: stale filterTools_hit [OF cached] createFilterResult_def Let_def)
       (simp add: cfgDebugOff_def)
qed

text \<open>
  Claim C5, cache coherence.  Take two calls with the same configuration and options,
  and between them any number of other filter calls but no registration and no
  clearing.  The second call finds the first call's tool list in the cache and is built
  from it by \<^const>\<open>createFilterResult\<close>, leaving the registry as it is: the same tools,
  the same summary, an empty exclusion list, and counts \<open>total\<close> = registry size,
  \<open>included\<close> = length of the cached list, \<open>excluded\<close> = \<open>total - included\<close>.
\<close>

theorem cache_coherence:
  "(let first = filterTools cfg options reg;
        between = filterCalls calls (snd first);
        second = filterTools cfg options between
    in filteredCache between (createFilterCacheKey cfg options) = Some (result_tools (fst first))
       \<and> second = (createFilterResult (result_tools (fst first)) between, between)
       \<and> result_tools (fst second) = result_tools (fst first)
       \<and> summary (fst second) = summary (fst first)
       \<and> excluded (fst second) = []
       \<and> total (summary (fst second)) = int (length (tools between))
       \<and> included (summary (fst second)) = int (length (result_tools (fst second)))
       \<and> excluded_count (summary (fst second))
           = total (summary (fst second)) - included (summary (fst second)))"
proof -
  let ?key = "createFilterCacheKey cfg options"
  let ?first = "filterTools cfg options reg"
  let ?between = "filterCalls calls (snd ?first)"
  have stored: "filteredCache (snd ?first) ?key = Some (result_tools (fst ?first))"
  proof (cases "filteredCache reg ?key")
    case None
    then show ?thesis by (simp add: filterTools_miss Let_def)
  next
    case (Some cached)
    then show ?thesis by (simp add: filterTools_hit createFilterResult_def Let_def)
  qed
  then have cached: "filteredCache ?between ?key = Some (result_tools (fst ?first))"
    by (rule cache_kept_filterCalls)
  have same_tools: "tools ?between = tools reg"
    by (simp add: tools_filterCalls tools_filterTools)
  have sum1: "summary (fst ?first) =
      \<lparr>total = int (length (tools reg)), included = int (length (result_tools (fst ?first))),
       excluded_count = int (length (tools reg)) - int (length (result_tools (fst ?first)))\<rparr>"
  proof (cases "filteredCache reg ?key")
    case None
    then show ?thesis
      by (simp add: filterTools_miss Let_def length_genericExclusions length_filter_split)
  next
    case (Some cached)
    then show ?thesis by (simp add: filterTools_hit createFilterResult_def Let_def)
  qed
  have second: "filterTools cfg options ?between
      = (createFilterResult (result_tools (fst ?first)) ?between, ?between)"
    using cached by (rule filterTools_hit)
  show ?thesis
    unfolding Let_def second
    by (simp add: cached sum1 createFilterResult_def Let_def same_tools)
qed

text \<open>The registry of \<open>a\<close> and \<open>b\<close>, filtered for \<open>a\<close>, then for everything, then
  for \<open>a\<close> again.\<close>

theorem cache_coherence_witness:
  "result_tools (fst (filterTools cfgOnlyA noFilterOptions registryAB)) = [toolA]
   \<and> excluded (fst (filterTools cfgOnlyA noFilterOptions registryAB)) \<noteq> []
   \<and> summary (fst (filterTools cfgOnlyA noFilterOptions registryAB))
       = \<lparr>total = 2, included = 1, excluded_count = 1\<rparr>
   \<and> result_tools (fst (filterTools cfgOnlyA noFilterOptions
        (filterCalls [(cfgNoList, noFilterOptions)]
           (snd (filterTools cfgOnlyA noFilterOptions registryAB))))) = [toolA]
   \<and> excluded (fst (filterTools cfgOnlyA noFilterOptions
        (filterCalls [(cfgNoList, noFilterOptions)]
           (snd (filterTools cfgOnlyA noFilterOptions registryAB))))) = []
   \<and> summary (fst (filterTools cfgOnlyA noFilterOptions
        (filterCalls [(cfgNoList, noFilterOptions)]
           (snd (filterTools cfgOnlyA noFilterOptions registryAB)))))
       = \<lparr>total = 2, included = 1, excluded_count = 1\<rparr>"
proof -
  have miss: "filteredCache registryAB (createFilterCacheKey cfgOnlyA noFilterOptions) = None"
    by (rule registryAB_facts)
  have first: "fst (filterTools cfgOnlyA noFilterOptions registryAB)
      = \<lparr>result_tools = [toolA],
         excluded = [\<lparr>tool_name = ''b'', reason = ''Not in requested tools list''\<rparr>],
         summary = \<lparr>total = 2, included = 1, excluded_count = 1\<rparr>\<rparr>"
    by (simp add: filterTools_miss [OF miss] Let_def registryAB_eligible registryAB_facts
          allowlistExclusion_def)
       (simp add: demo_defs)
  show ?thesis
    using cache_coherence [of cfgOnlyA noFilterOptions registryAB "[(cfgNoList, noFilterOptions)]"]
    by (simp add: Let_def first createFilterResult_def tools_filterCalls tools_filterTools
          registryAB_facts)
qed


section \<open>Value coercion\<close>





section \<open>Registration\<close>




section \<open>The reserved \<^verbatim>\<open>to-use\<close> header\<close>





section \<open>Conditions and the partition of the registry\<close>

text \<open>
  Claim C9, evaluation of conditions that lack fields, as the code decides them.  A
  \<^verbatim>\<open>config\<close> condition without a field name (missing or empty) is false; a \<^verbatim>\<open>custom\<close>
  condition without a validator is true; an \<^verbatim>\<open>environment\<close> condition is true; a condition
  of any other type is false.  A registration with a condition that evaluates to false
  is excluded with a reason.  Evaluation is a total function of the condition and the
  configuration, predicates and validators being total.
\<close>

theorem condition_defaults:
  "(ctype c = ''config'' \<and> (field c = None \<or> field c = Some []) \<longrightarrow> \<not> evaluateCondition c cfg)
   \<and> (ctype c = ''custom'' \<and> validator c = None \<longrightarrow> evaluateCondition c cfg)
   \<and> (ctype c = ''environment'' \<longrightarrow> evaluateCondition c cfg)
   \<and> (ctype c \<notin> {''config'', ''environment'', ''custom''} \<longrightarrow> \<not> evaluateCondition c cfg)
   \<and> (c \<in> set (conditions registration) \<and> \<not> evaluateCondition c cfg \<longrightarrow>
        (\<exists>why. shouldIncludeTool t registration cfg options = Reason why))"
proof -
  have excl: "\<exists>why. checkConditions cs cfg = Reason why"
    if "c \<in> set cs" "\<not> evaluateCondition c cfg" for cs
    using that by (induction cs) auto
  show ?thesis
    using excl [of "conditions registration"]
    by (auto simp: evaluateCondition_def shouldIncludeTool_def)
qed

theorem condition_defaults_witness:
  "ctype bareConfigCondition = ''config'' \<and> field bareConfigCondition = None
   \<and> \<not> evaluateCondition bareConfigCondition cfgNoList
   \<and> bareConfigCondition \<in> set (conditions \<lparr>tool = toolA, enabledByDefault = True, conditions = [bareConfigCondition]\<rparr>)
   \<and> shouldIncludeTool toolA \<lparr>tool = toolA, enabledByDefault = True, conditions = [bareConfigCondition]\<rparr>
        cfgNoList noFilterOptions = Reason ''Condition not met: config''
   \<and> ctype bareCustomCondition = ''custom'' \<and> validator bareCustomCondition = None
   \<and> evaluateCondition bareCustomCondition cfgNoList
   \<and> ctype (bareConfigCondition\<lparr>ctype := ''environment''\<rparr>) = ''environment''
   \<and> evaluateCondition (bareConfigCondition\<lparr>ctype := ''environment''\<rparr>) cfgNoList
   \<and> ctype (bareConfigCondition\<lparr>ctype := ''other''\<rparr>) \<notin> {''config'', ''environment'', ''custom''}
   \<and> \<not> evaluateCondition (bareConfigCondition\<lparr>ctype := ''other''\<rparr>) cfgNoList"
  using condition_defaults [of bareConfigCondition cfgNoList
          "\<lparr>tool = toolA, enabledByDefault = True, conditions = [bareConfigCondition]\<rparr>" toolA noFilterOptions]
        condition_defaults [of bareCustomCondition cfgNoList]
        condition_defaults [of "bareConfigCondition\<lparr>ctype := ''environment''\<rparr>" cfgNoList]
        condition_defaults [of "bareConfigCondition\<lparr>ctype := ''other''\<rparr>" cfgNoList]
  by (simp add: demo_defs filter_defs)

text \<open>A \<^verbatim>\<open>custom\<close> condition whose validator is missing is met, and the tool is included.\<close>

theorem missing_validator_counterexample:
  "validator bareCustomCondition = None
   \<and> evaluateCondition bareCustomCondition cfgNoList
   \<and> shouldIncludeTool toolA \<lparr>tool = toolA, enabledByDefault = True, conditions = [bareCustomCondition]\<rparr>
        cfgNoList noFilterOptions = IsTrue"
  by (simp add: demo_defs filter_defs)

text \<open>
  Claim C10, the partition invariant.  In a registry as \<^verbatim>\<open>registerTool\<close> builds it, the
  summary of every call satisfies \<open>included + excluded = total\<close>, with \<open>total\<close> the
  size of the registry; and on a call that misses the cache the names of the returned
  tools and the names in the exclusion list are, together, the registered names, each
  exactly once.
\<close>

theorem partition_invariant:
  assumes inv: "registry_inv reg"
  shows "(let r = fst (filterTools cfg options reg) in
           included (summary r) + excluded_count (summary r) = total (summary r)
           \<and> total (summary r) = int (length (tools reg))
           \<and> (filteredCache reg (createFilterCacheKey cfg options) = None \<longrightarrow>
                mset (map name (result_tools r) @ map tool_name (excluded r)) = mset (map fst (tools reg))
                \<and> distinct (map name (result_tools r) @ map tool_name (excluded r))))"
proof (cases "filteredCache reg (createFilterCacheKey cfg options)")
  case (Some cached)
  then show ?thesis
    by (simp add: filterTools_hit createFilterResult_def Let_def)
next
  case None
  let ?r = "fst (filterTools cfg options reg)"
  have counts: "included (summary ?r) + excluded_count (summary ?r) = total (summary ?r)"
    and tot: "total (summary ?r) = int (length (tools reg))"
    by (simp_all add: filterTools_miss [OF None] Let_def length_genericExclusions length_filter_split)
  have names: "mset (map name (result_tools ?r) @ map tool_name (excluded ?r))
               = mset (map (\<lambda>r. name (tool r)) (map snd (tools reg)))"
  proof (cases "availableTools cfg = []")
    case True
    then show ?thesis
      using mset_generic [of reg cfg options]
      by (simp add: filterTools_miss [OF None] Let_def)
  next
    case False
    then show ?thesis
      using mset_generic [of reg cfg options]
        mset_allowlist [of "set (availableTools cfg)" "registryEligible reg cfg options"]
      by (simp add: filterTools_miss [OF None] Let_def ac_simps)
  qed
  then have m: "mset (map name (result_tools ?r) @ map tool_name (excluded ?r)) = mset (map fst (tools reg))"
    by (simp only: registry_inv_names [OF inv])
  have "distinct (map fst (tools reg))"
    using inv by (simp add: registry_inv_def)
  then have "distinct (map name (result_tools ?r) @ map tool_name (excluded ?r))"
    using m mset_eq_imp_distinct_iff by blast
  with counts tot m show ?thesis
    by (simp add: Let_def)
qed

text \<open>The registry of \<open>a\<close> and \<open>b\<close>, filtered for \<open>a\<close>: first computed, then from
  the cache.\<close>

theorem partition_invariant_witness:
  "registry_inv registryAB
   \<and> filteredCache registryAB (createFilterCacheKey cfgOnlyA noFilterOptions) = None
   \<and> map name (result_tools (fst (filterTools cfgOnlyA noFilterOptions registryAB))) = [''a'']
   \<and> map tool_name (excluded (fst (filterTools cfgOnlyA noFilterOptions registryAB))) = [''b'']
   \<and> map fst (tools registryAB) = [''a'', ''b'']
   \<and> summary (fst (filterTools cfgOnlyA noFilterOptions registryAB))
       = \<lparr>total = 2, included = 1, excluded_count = 1\<rparr>
   \<and> registry_inv (snd (filterTools cfgOnlyA noFilterOptions registryAB))
   \<and> filteredCache (snd (filterTools cfgOnlyA noFilterOptions registryAB))
        (createFilterCacheKey cfgOnlyA noFilterOptions) \<noteq> None
   \<and> included (summary (fst (filterTools cfgOnlyA noFilterOptions
                                (snd (filterTools cfgOnlyA noFilterOptions registryAB)))))
     + excluded_count (summary (fst (filterTools cfgOnlyA noFilterOptions
                                (snd (filterTools cfgOnlyA noFilterOptions registryAB)))))
     = 2"
proof -
  have miss: "filteredCache registryAB (createFilterCacheKey cfgOnlyA noFilterOptions) = None"
    by (rule registryAB_facts)
  have inv: "registry_inv registryAB"
    by (rule registryAB_facts)
  have inv': "registry_inv (snd (filterTools cfgOnlyA noFilterOptions registryAB))"
    using inv by (rule registry_inv_filterTools)
  have first: "fst (filterTools cfgOnlyA noFilterOptions registryAB)
      = \<lparr>result_tools = [toolA],
         excluded = [\<lparr>tool_name = ''b'', reason = ''Not in requested tools list''\<rparr>],
         summary = \<lparr>total = 2, included = 1, excluded_count = 1\<rparr>\<rparr>"
    by (simp add: filterTools_miss [OF miss] Let_def registryAB_eligible registryAB_facts
          allowlistExclusion_def)
       (simp add: demo_defs)
  have cached: "filteredCache (snd (filterTools cfgOnlyA noFilterOptions registryAB))
        (createFilterCacheKey cfgOnlyA noFilterOptions) \<noteq> None"
    by (simp add: filterTools_miss [OF miss] Let_def)
  have len: "length (tools registryAB) = 2"
    by (simp add: registryAB_facts)
  show ?thesis
    using partition_invariant [OF inv, of cfgOnlyA noFilterOptions]
      partition_invariant [OF inv', of cfgOnlyA noFilterOptions]
      miss inv inv' cached
    by (simp add: Let_def first tools_filterTools len registryAB_facts)
qed

end
